theory Spec2Isabelle
  imports Main
begin

section \<open>The four tables\<close>

text \<open>
  The declarative classes \<open>User\<close>, \<open>Event\<close>, \<open>ApiToken\<close> and \<open>AuthToken\<close> of
  \<open>identity.py\<close>, one constructor argument per column, in the order of the class body.
  The \<open>created\<close> column holds the reading of \<open>datetime.utcnow\<close> as the table stores it,
  a natural number.
\<close>

datatype user = User (user_discord_id: string) (user_created: nat)

datatype event =
  Event (event_discord_id: string) (event_action: string) (event_created: nat)

datatype api_token =
  ApiToken (api_discord_id: string) (api_token_value: string) (api_created: nat)

datatype auth_token =
  AuthToken (auth_discord_id: string) (auth_provider: string)
    (auth_token_value: string) (auth_created: nat)

text \<open>The tables keep their rows in the order of insertion.\<close>

record database =
  users :: "user list"
  events :: "event list"
  api_tokens :: "api_token list"
  auth_tokens :: "auth_token list"

section \<open>Errors\<close>

text \<open>
  The exceptions that leave the methods of \<open>Schema\<close>. \<open>AttributeError\<close> is what
  \<open>create_user\<close> raises for a user ID that exists already, \<open>RuntimeError\<close> what
  \<open>create_token\<close> raises when no token could be generated, \<open>KeyError\<close> what the two
  lookups raise when nothing is found. \<open>IntegrityError\<close> (a primary key exists already)
  and \<open>DataError\<close> (the session runs in the mode \<open>TRADITIONAL\<close>, which refuses a
  value longer than its column) are the two subclasses of \<open>StatementError\<close> that an
  \<open>INSERT\<close> of these tables can raise. \<open>InvalidRequestError\<close> is raised by a session
  whose transaction was rolled back by a failed flush and that has not been rolled back
  itself; it is no \<open>StatementError\<close>.
\<close>

datatype error =
    IntegrityError
  | DataError
  | InvalidRequestError
  | AttributeError
  | RuntimeError
  | KeyError

definition is_StatementError :: "error \<Rightarrow> bool" where
  "is_StatementError e = (e = IntegrityError \<or> e = DataError)"

section \<open>The session and the store behind it\<close>

text \<open>An object given to \<open>session.add\<close>, before the flush gives it its \<open>created\<close>.\<close>

datatype pending =
    NewUser string
  | NewEvent string string
  | NewApiToken string string
  | NewAuthToken string string string

text \<open>
  The state a \<open>Schema\<close> object works on: the tables as committed, the tables as the open
  transaction of the session sees them, the objects added to the session and not yet
  flushed, whether the transaction of the session is usable, and the warnings issued.
  The two sources of values from outside are part of it: \<open>clock n\<close> is the \<open>n\<close>-th
  reading of \<open>datetime.utcnow\<close> and \<open>ticks\<close> counts the readings taken;
  \<open>token_urlsafe n\<close> is the \<open>n\<close>-th result of \<open>secrets.token_urlsafe(nbytes=48)\<close> and
  \<open>draws\<close> counts the results taken.
\<close>

record schema =
  committed :: database
  working :: database
  pending :: "pending list"
  active :: bool
  warnings :: "string list"
  clock :: "nat \<Rightarrow> nat"
  ticks :: nat
  token_urlsafe :: "nat \<Rightarrow> string"
  draws :: nat

type_synonym 'a outcome = "(error + 'a) \<times> schema"

definition and_then :: "'a outcome \<Rightarrow> ('a \<Rightarrow> schema \<Rightarrow> 'b outcome) \<Rightarrow> 'b outcome" where
  "and_then m f = (case m of (Inl e, s) \<Rightarrow> (Inl e, s) | (Inr x, s) \<Rightarrow> f x s)"

text \<open>
  One \<open>INSERT\<close>. The column lengths are those of the \<open>String(length=...)\<close> columns and
  the keys those of the \<open>primary_key=True\<close> columns: \<open>discord_id\<close> for a user, all three
  columns for an event, \<open>discord_id\<close> and \<open>token\<close> for an API token, \<open>discord_id\<close>,
  \<open>provider\<close> and \<open>token\<close> for an authentication token. Strings are compared
  character by character.
\<close>

fun insert_row :: "pending \<Rightarrow> nat \<Rightarrow> database \<Rightarrow> error + database" where
  "insert_row (NewUser i) t db =
     (if 32 < length i then Inl DataError
      else if i \<in> user_discord_id ` set (users db) then Inl IntegrityError
      else Inr (db\<lparr>users := users db @ [User i t]\<rparr>))"
| "insert_row (NewEvent i a) t db =
     (if 32 < length i \<or> 64 < length a then Inl DataError
      else if Event i a t \<in> set (events db) then Inl IntegrityError
      else Inr (db\<lparr>events := events db @ [Event i a t]\<rparr>))"
| "insert_row (NewApiToken i k) t db =
     (if 32 < length i \<or> 64 < length k then Inl DataError
      else if (i, k) \<in> (\<lambda>r. (api_discord_id r, api_token_value r)) ` set (api_tokens db)
        then Inl IntegrityError
      else Inr (db\<lparr>api_tokens := api_tokens db @ [ApiToken i k t]\<rparr>))"
| "insert_row (NewAuthToken i p k) t db =
     (if 32 < length i \<or> 64 < length p \<or> 1024 < length k then Inl DataError
      else if (i, p, k) \<in>
          (\<lambda>r. (auth_discord_id r, auth_provider r, auth_token_value r)) ` set (auth_tokens db)
        then Inl IntegrityError
      else Inr (db\<lparr>auth_tokens := auth_tokens db @ [AuthToken i p k t]\<rparr>))"

text \<open>
  The rows of a flush, written in the order in which the objects were added. Each row
  takes its \<open>created\<close> from the next reading of the clock; the first row that is refused
  ends the flush.
\<close>

fun flush_rows ::
  "pending list \<Rightarrow> (nat \<Rightarrow> nat) \<Rightarrow> nat \<Rightarrow> database \<Rightarrow> (error + database) \<times> nat" where
  "flush_rows [] clk n db = (Inr db, n)"
| "flush_rows (p # ps) clk n db =
     (case insert_row p (clk n) db of
        Inl e \<Rightarrow> (Inl e, Suc n)
      | Inr db' \<Rightarrow> flush_rows ps clk (Suc n) db')"

text \<open>
  \<open>session.flush()\<close>: nothing to do for a clean session; otherwise the pending objects
  are written into the open transaction. A refused row rolls the transaction back, with
  everything it held, expunges the pending objects and leaves the session unusable until
  it is rolled back.
\<close>

definition flush :: "schema \<Rightarrow> unit outcome" where
  "flush s =
     (if pending s = [] then (Inr (), s)
      else if \<not> active s then (Inl InvalidRequestError, s)
      else (case flush_rows (pending s) (clock s) (ticks s) (working s) of
              (Inl e, n) \<Rightarrow>
                (Inl e, s\<lparr>working := committed s, pending := [], active := False, ticks := n\<rparr>)
            | (Inr db, n) \<Rightarrow>
                (Inr (), s\<lparr>working := db, pending := [], ticks := n\<rparr>)))"

text \<open>
  \<open>session.commit()\<close>: flush, then make the transaction durable. When the flush fails
  inside the commit the session rolls its transaction back itself and begins a new one.
\<close>

definition session_commit :: "schema \<Rightarrow> unit outcome" where
  "session_commit s =
     (if \<not> active s then (Inl InvalidRequestError, s)
      else (case flush s of
              (Inl e, s') \<Rightarrow> (Inl e, s'\<lparr>active := True\<rparr>)
            | (Inr _, s') \<Rightarrow> (Inr (), s'\<lparr>committed := working s'\<rparr>)))"

definition session_rollback :: "schema \<Rightarrow> schema" where
  "session_rollback s = s\<lparr>working := committed s, pending := [], active := True\<rparr>"

definition session_add :: "pending \<Rightarrow> schema \<Rightarrow> schema" where
  "session_add p s = s\<lparr>pending := pending s @ [p]\<rparr>"

definition warn :: "string \<Rightarrow> schema \<Rightarrow> schema" where
  "warn m s = s\<lparr>warnings := warnings s @ [m]\<rparr>"

text \<open>
  A statement of a query: the autoflush first, then the statement on the open
  transaction. \<open>select\<close> is the iteration of \<open>query(...).filter_by(...)\<close>, \<open>execute\<close>
  its \<open>delete()\<close>. \<open>Schema.query\<close> itself only builds the query object: nothing is
  sent to the database inside its \<open>try\<close>, so its handler is never entered and the
  errors of a statement reach the caller as they are.
\<close>

definition select :: "(database \<Rightarrow> 'a list) \<Rightarrow> ('a \<Rightarrow> bool) \<Rightarrow> schema \<Rightarrow> 'a list outcome" where
  "select table p s =
     and_then (flush s) (\<lambda>_ s'.
       if active s' then (Inr (filter p (table (working s'))), s')
       else (Inl InvalidRequestError, s'))"

definition execute :: "(database \<Rightarrow> database) \<Rightarrow> schema \<Rightarrow> unit outcome" where
  "execute f s =
     and_then (flush s) (\<lambda>_ s'.
       if active s' then (Inr (), s'\<lparr>working := f (working s')\<rparr>)
       else (Inl InvalidRequestError, s'))"

section \<open>The methods of \<open>Schema\<close>\<close>

text \<open>
  \<open>connect\<close> closes the sessions and the connection and opens new ones: what was not
  committed is gone.
\<close>

definition connect :: "schema \<Rightarrow> schema" where
  "connect s = s\<lparr>working := committed s, pending := [], active := True\<rparr>"

definition commit :: "schema \<Rightarrow> unit outcome" where
  "commit s =
     (case session_commit s of
        (Inl e, s') \<Rightarrow>
          if is_StatementError e then (Inl e, connect (session_rollback s')) else (Inl e, s')
      | (Inr u, s') \<Rightarrow> (Inr u, s'))"

definition register_event :: "string \<Rightarrow> string \<Rightarrow> bool \<Rightarrow> schema \<Rightarrow> unit outcome" where
  "register_event discord_id action do_commit s =
     (let s1 = session_add (NewEvent discord_id action) s in
      if do_commit then
        (case commit s1 of
           (Inl e, s2) \<Rightarrow>
             if e = IntegrityError
             then (Inr (), warn ''Attempting to commit events too quickly!'' s2)
             else (Inl e, s2)
         | (Inr u, s2) \<Rightarrow> (Inr u, s2))
      else (Inr (), s1))"

text \<open>
  The loop of \<open>create_token\<close>, with the number of rounds left: \<open>range(1, 100)\<close> gives
  99 rounds. \<open>None\<close> is the \<open>token\<close> that is still \<open>None\<close> after the loop.
\<close>

fun find_token :: "nat \<Rightarrow> schema \<Rightarrow> string option outcome" where
  "find_token 0 s = (Inr None, s)"
| "find_token (Suc n) s =
     (let new_token = token_urlsafe s (draws s) in
      and_then (select api_tokens (\<lambda>r. api_token_value r = new_token)
                  (s\<lparr>draws := Suc (draws s)\<rparr>))
        (\<lambda>results s'. if results \<noteq> [] then find_token n s' else (Inr (Some new_token), s')))"

definition create_token :: "string \<Rightarrow> bool \<Rightarrow> schema \<Rightarrow> unit outcome" where
  "create_token discord_id do_commit s =
     and_then (find_token 99 s) (\<lambda>token s1.
       case token of
         None \<Rightarrow> (Inl RuntimeError, s1)
       | Some k \<Rightarrow>
           and_then (register_event discord_id ''TOKEN_CREATE'' do_commit
                       (session_add (NewApiToken discord_id k) s1))
             (\<lambda>_ s2. if do_commit then commit s2 else (Inr (), s2)))"

definition revoke_token :: "string \<Rightarrow> bool \<Rightarrow> schema \<Rightarrow> unit outcome" where
  "revoke_token discord_id do_commit s =
     and_then (execute (\<lambda>db. db\<lparr>api_tokens :=
                  filter (\<lambda>r. api_discord_id r \<noteq> discord_id) (api_tokens db)\<rparr>) s)
       (\<lambda>_ s1. and_then (register_event discord_id ''TOKEN_REVOKE'' do_commit s1)
          (\<lambda>_ s2. if do_commit then commit s2 else (Inr (), s2)))"

definition regenerate_token :: "string \<Rightarrow> bool \<Rightarrow> schema \<Rightarrow> unit outcome" where
  "regenerate_token discord_id do_commit s =
     and_then (revoke_token discord_id False s)
       (\<lambda>_ s1. and_then (create_token discord_id False s1)
          (\<lambda>_ s2. if do_commit then commit s2 else (Inr (), s2)))"

definition create_user :: "string \<Rightarrow> bool \<Rightarrow> bool \<Rightarrow> schema \<Rightarrow> unit outcome" where
  "create_user discord_id generate_token do_commit s =
     and_then (register_event discord_id ''USER_CREATE'' do_commit
                 (session_add (NewUser discord_id) s))
       (\<lambda>_ s1. and_then
          (if generate_token then regenerate_token discord_id False s1 else (Inr (), s1))
          (\<lambda>_ s2.
             if do_commit then
               (case commit s2 of
                  (Inl e, s3) \<Rightarrow>
                    if e = IntegrityError then (Inl AttributeError, s3) else (Inl e, s3)
                | (Inr u, s3) \<Rightarrow> (Inr u, s3))
             else (Inr (), s2)))"



definition get_api_user :: "string \<Rightarrow> schema \<Rightarrow> string outcome" where
  "get_api_user token s =
     and_then (select api_tokens (\<lambda>r. api_token_value r = token) s)
       (\<lambda>results s1.
          case results of
            [] \<Rightarrow> (Inl KeyError, s1)
          | r # _ \<Rightarrow> (Inr (api_discord_id r), s1))"

definition get_api_token :: "string \<Rightarrow> schema \<Rightarrow> string outcome" where
  "get_api_token discord_id s =
     and_then (select api_tokens (\<lambda>r. api_discord_id r = discord_id) s)
       (\<lambda>results s1.
          case results of
            [] \<Rightarrow> (Inl KeyError, s1)
          | r # _ \<Rightarrow> (Inr (api_token_value r), s1))"

definition set_auth_discord :: "string \<Rightarrow> string \<Rightarrow> bool \<Rightarrow> schema \<Rightarrow> unit outcome" where
  "set_auth_discord discord_id discord_token do_commit s =
     and_then (execute (\<lambda>db. db\<lparr>auth_tokens :=
                  filter (\<lambda>r. auth_discord_id r \<noteq> discord_id) (auth_tokens db)\<rparr>) s)
       (\<lambda>_ s1. and_then
          (register_event discord_id ''AUTHENTICATE_DISCORD'' False
             (session_add (NewAuthToken discord_id ''DISCORD'' discord_token) s1))
          (\<lambda>_ s2. if do_commit then commit s2 else (Inr (), s2)))"

section \<open>States the properties speak about\<close>

text \<open>
  \<open>Schema db clk gen\<close> is the object \<open>Schema(database_uri)\<close> right after \<open>__init__\<close>,
  connected to a database that holds \<open>db\<close>, with the clock \<open>clk\<close> and the token
  generator \<open>gen\<close> around it.
\<close>

definition Schema :: "database \<Rightarrow> (nat \<Rightarrow> nat) \<Rightarrow> (nat \<Rightarrow> string) \<Rightarrow> schema" where
  "Schema db clk gen =
     \<lparr>committed = db, working = db, pending = [], active = True, warnings = [],
      clock = clk, ticks = 0, token_urlsafe = gen, draws = 0\<rparr>"

definition empty_database :: database where
  "empty_database = \<lparr>users = [], events = [], api_tokens = [], auth_tokens = []\<rparr>"

text \<open>
  A session is settled when it holds no work of its own: nothing added and not flushed,
  nothing flushed and not committed, and a usable transaction. This is the state between
  two calls that commit.
\<close>

definition settled :: "schema \<Rightarrow> bool" where
  "settled s = (pending s = [] \<and> active s \<and> working s = committed s)"

text \<open>
  The audit event of account \<open>i\<close> with action \<open>a\<close> is new when no reading the clock
  gives from now on is the timestamp of such an event in the table: the key of the
  event to be written does not exist yet.
\<close>

definition fresh_stamp :: "schema \<Rightarrow> string \<Rightarrow> string \<Rightarrow> bool" where
  "fresh_stamp s i a = (\<forall>n\<ge>ticks s. Event i a (clock s n) \<notin> set (events (working s)))"

text \<open>
  The \<open>k\<close>-th token that \<open>secrets.token_urlsafe\<close> returns from now on, and whether a
  token value stands in the table \<open>api_tokens\<close> as the session sees it.
\<close>

definition candidate :: "schema \<Rightarrow> nat \<Rightarrow> string" where
  "candidate s k = token_urlsafe s (draws s + k)"

definition taken :: "schema \<Rightarrow> string \<Rightarrow> bool" where
  "taken s k = (k \<in> api_token_value ` set (api_tokens (working s)))"

text \<open>A database in which account \<open>7\<close> holds the token \<open>x\<close>.\<close>

definition one_token_database :: database where
  "one_token_database = empty_database\<lparr>api_tokens := [ApiToken ''7'' ''x'' 0]\<rparr>"

text \<open>A token generator that never repeats itself: \<open>a\<close>, \<open>aa\<close>, \<open>aaa\<close>, ...\<close>

definition letters :: "nat \<Rightarrow> string" where
  "letters n = replicate (Suc n) CHR ''a''"

text \<open>Whether a token value stands in a row of \<open>api_tokens\<close> of an account other than \<open>i\<close>.\<close>

definition taken_by_others :: "schema \<Rightarrow> string \<Rightarrow> string \<Rightarrow> bool" where
  "taken_by_others s i k =
     (k \<in> api_token_value ` set (filter (\<lambda>r. api_discord_id r \<noteq> i) (api_tokens (working s))))"

text \<open>
  A database as the calls leave it: account \<open>42\<close> with its user row, its token, its audit
  events and a Discord token, and a token of account \<open>7\<close>.
\<close>

definition sample_database :: database where
  "sample_database =
     \<lparr>users = [User ''42'' 0],
      events = [Event ''42'' ''USER_CREATE'' 1, Event ''42'' ''TOKEN_REVOKE'' 2,
                Event ''42'' ''TOKEN_CREATE'' 4],
      api_tokens = [ApiToken ''42'' ''old'' 3, ApiToken ''7'' ''a'' 0],
      auth_tokens = [AuthToken ''42'' ''DISCORD'' ''dc'' 0]\<rparr>"




section \<open>The session primitives on the states that occur\<close>

lemma and_then_Inl [simp]: "and_then (Inl e, s) f = (Inl e, s)"
  by (simp add: and_then_def)

lemma and_then_Inr [simp]: "and_then (Inr x, s) f = f x s"
  by (simp add: and_then_def)

lemma insert_row_error: "insert_row p t db = Inl e \<Longrightarrow> is_StatementError e"
  by (cases p) (auto simp: is_StatementError_def split: if_splits)

lemma flush_rows_error: "flush_rows ps clk n db = (Inl e, m) \<Longrightarrow> is_StatementError e"
  by (induction ps arbitrary: n db) (auto split: sum.splits dest: insert_row_error)

lemma flush_clean [simp]: "pending s = [] \<Longrightarrow> flush s = (Inr (), s)"
  by (simp add: flush_def)

lemma select_clean [simp]:
  "pending s = [] \<Longrightarrow> active s \<Longrightarrow>
   select table p s = (Inr (filter p (table (working s))), s)"
  by (simp add: select_def)

lemma execute_clean [simp]:
  "pending s = [] \<Longrightarrow> active s \<Longrightarrow> execute f s = (Inr (), s\<lparr>working := f (working s)\<rparr>)"
  by (simp add: execute_def)

text \<open>
  \<open>Schema.commit\<close> on a usable session: either every pending row is written and the
  transaction becomes durable, or the first refused row discards the whole transaction.
\<close>

lemma commit_active:
  "active s \<Longrightarrow> commit s =
     (case flush_rows (pending s) (clock s) (ticks s) (working s) of
        (Inl e, n) \<Rightarrow>
          (Inl e, s\<lparr>working := committed s, pending := [], active := True, ticks := n\<rparr>)
      | (Inr db, n) \<Rightarrow>
          (Inr (), s\<lparr>committed := db, working := db, pending := [], ticks := n\<rparr>))"
  by (auto simp: commit_def session_commit_def flush_def connect_def session_rollback_def
      split: prod.splits sum.splits dest: flush_rows_error)

section \<open>Revoking the token of an account that has none\<close>

text \<open>
  Claim C6. On a settled session, for an account ID of at most 32 characters that has no
  row in \<open>api_tokens\<close>, \<open>revoke_token(id)\<close> with \<open>commit=True\<close> returns without an
  error, leaves the table \<open>api_tokens\<close> as it was, and afterwards the table \<open>events\<close>
  holds the \<open>TOKEN_REVOKE\<close> event of the account with the timestamp that the call read
  from the clock: the call appends it, unless it was there already.
\<close>

theorem revoke_token_without_token:
  assumes "settled s" and "length discord_id \<le> 32"
    and "\<forall>r\<in>set (api_tokens (committed s)). api_discord_id r \<noteq> discord_id"
  shows "fst (revoke_token discord_id True s) = Inr () \<and>
         api_tokens (committed (snd (revoke_token discord_id True s))) =
           api_tokens (committed s) \<and>
         Event discord_id ''TOKEN_REVOKE'' (clock s (ticks s))
           \<in> set (events (committed (snd (revoke_token discord_id True s)))) \<and>
         (Event discord_id ''TOKEN_REVOKE'' (clock s (ticks s)) \<notin> set (events (committed s)) \<longrightarrow>
            events (committed (snd (revoke_token discord_id True s))) =
              events (committed s) @ [Event discord_id ''TOKEN_REVOKE'' (clock s (ticks s))])"
  using assms
  by (auto simp: revoke_token_def register_event_def session_add_def settled_def
      commit_active warn_def Let_def filter_id_conv split: prod.splits sum.splits if_splits)

theorem revoke_token_without_token_witness:
  "settled (Schema (empty_database\<lparr>api_tokens := [ApiToken ''7'' ''abc'' 0]\<rparr>) (\<lambda>n. n) (\<lambda>n. ''x'')) \<and>
   fst (revoke_token ''42'' True
     (Schema (empty_database\<lparr>api_tokens := [ApiToken ''7'' ''abc'' 0]\<rparr>) (\<lambda>n. n) (\<lambda>n. ''x''))) = Inr () \<and>
   api_tokens (committed (snd (revoke_token ''42'' True
     (Schema (empty_database\<lparr>api_tokens := [ApiToken ''7'' ''abc'' 0]\<rparr>) (\<lambda>n. n) (\<lambda>n. ''x''))))) =
     [ApiToken ''7'' ''abc'' 0] \<and>
   events (committed (snd (revoke_token ''42'' True
     (Schema (empty_database\<lparr>api_tokens := [ApiToken ''7'' ''abc'' 0]\<rparr>) (\<lambda>n. n) (\<lambda>n. ''x''))))) =
     [Event ''42'' ''TOKEN_REVOKE'' 0]"
  using revoke_token_without_token
    [of "Schema (empty_database\<lparr>api_tokens := [ApiToken ''7'' ''abc'' 0]\<rparr>) (\<lambda>n. n) (\<lambda>n. ''x'')" "''42''"]
  by (simp add: settled_def Schema_def empty_database_def)

section \<open>Generating a token\<close>

text \<open>
  The loop of \<open>create_token\<close> on a session with nothing to flush: when each of the
  first \<open>n\<close> candidates stands in the table the loop ends without a token, after \<open>n\<close>
  draws; when the candidate number \<open>j\<close> is the first that does not, the loop ends with
  it, after \<open>j + 1\<close> draws.
\<close>

lemma find_token_exhausted:
  "pending s = [] \<Longrightarrow> active s \<Longrightarrow>
   \<forall>k<n. token_urlsafe s (draws s + k) \<in> api_token_value ` set (api_tokens (working s)) \<Longrightarrow>
   find_token n s = (Inr None, s\<lparr>draws := draws s + n\<rparr>)"
proof (induction n arbitrary: s)
  case 0
  then show ?case by simp
next
  case (Suc n)
  let ?s' = "s\<lparr>draws := Suc (draws s)\<rparr>"
  from Suc.prems(3) have here: "token_urlsafe s (draws s) \<in> api_token_value ` set (api_tokens (working s))"
    by (metis add.right_neutral zero_less_Suc)
  have rest: "\<forall>k<n. token_urlsafe ?s' (draws ?s' + k) \<in> api_token_value ` set (api_tokens (working ?s'))"
    using Suc.prems(3) by auto
  have "find_token n ?s' = (Inr None, ?s'\<lparr>draws := draws ?s' + n\<rparr>)"
    using Suc.IH [of ?s'] Suc.prems(1,2) rest by simp
  moreover have "filter (\<lambda>r. api_token_value r = token_urlsafe s (draws s)) (api_tokens (working s)) \<noteq> []"
    using here by (auto simp: filter_empty_conv)
  ultimately show ?case
    using Suc.prems(1,2) by (simp add: Let_def)
qed

lemma find_token_found:
  "pending s = [] \<Longrightarrow> active s \<Longrightarrow> j < n \<Longrightarrow>
   \<forall>k<j. token_urlsafe s (draws s + k) \<in> api_token_value ` set (api_tokens (working s)) \<Longrightarrow>
   token_urlsafe s (draws s + j) \<notin> api_token_value ` set (api_tokens (working s)) \<Longrightarrow>
   find_token n s = (Inr (Some (token_urlsafe s (draws s + j))), s\<lparr>draws := draws s + Suc j\<rparr>)"
proof (induction n arbitrary: s j)
  case 0
  then show ?case by simp
next
  case (Suc n)
  let ?s' = "s\<lparr>draws := Suc (draws s)\<rparr>"
  show ?case
  proof (cases j)
    case 0
    with Suc.prems(5) have "filter (\<lambda>r. api_token_value r = token_urlsafe s (draws s)) (api_tokens (working s)) = []"
      by (force simp: filter_empty_conv image_iff)
    with 0 Suc.prems(1,2) show ?thesis by (simp add: Let_def)
  next
    case (Suc j')
    from Suc.prems(4) Suc have here: "token_urlsafe s (draws s) \<in> api_token_value ` set (api_tokens (working s))"
      by (metis add.right_neutral zero_less_Suc)
    have hit: "filter (\<lambda>r. api_token_value r = token_urlsafe s (draws s)) (api_tokens (working s)) \<noteq> []"
      using here by (auto simp: filter_empty_conv)
    have rest: "\<forall>k<j'. token_urlsafe ?s' (draws ?s' + k) \<in> api_token_value ` set (api_tokens (working ?s'))"
      using Suc.prems(4) Suc by auto
    have free: "token_urlsafe ?s' (draws ?s' + j') \<notin> api_token_value ` set (api_tokens (working ?s'))"
      using Suc.prems(5) Suc by simp
    have "find_token n ?s' = (Inr (Some (token_urlsafe ?s' (draws ?s' + j'))), ?s'\<lparr>draws := draws ?s' + Suc j'\<rparr>)"
      using Suc.IH [of ?s' j'] Suc.prems(1,2,3) Suc rest free by simp
    with hit Suc Suc.prems(1,2) show ?thesis by (simp add: Let_def)
  qed
qed


lemma create_token_exhausted:
  assumes "pending s = []" "active s" "\<forall>k<99. taken s (candidate s k)"
  shows "create_token i c s = (Inl RuntimeError, s\<lparr>draws := draws s + 99\<rparr>)"
  using find_token_exhausted [of s 99] assms
  by (simp add: create_token_def candidate_def taken_def)

lemma create_token_found:
  assumes "pending s = []" "active s" "j < 99" "\<forall>k<j. taken s (candidate s k)"
    "\<not> taken s (candidate s j)"
  shows "create_token i c s =
     and_then (register_event i ''TOKEN_CREATE'' c
        (s\<lparr>draws := draws s + Suc j, pending := [NewApiToken i (candidate s j)]\<rparr>))
       (\<lambda>_ s2. if c then commit s2 else (Inr (), s2))"
  using find_token_found [of s j 99] assms
  by (simp add: create_token_def candidate_def taken_def session_add_def)

text \<open>
  Claim C3. \<open>create_token\<close> on a settled session draws a candidate, looks it up in
  \<open>api_tokens\<close> and draws again while the candidate stands there, 99 draws at most
  (\<open>range(1, 100)\<close>). When all 99 candidates stand in the table the call raises
  \<open>RuntimeError\<close> and nothing but the count of draws has changed: no row is written or
  pending. When candidate \<open>j\<close> is the first that is not in the table, the call takes
  \<open>j + 1\<close> draws and does not raise \<open>RuntimeError\<close>; the only row it adds to
  \<open>api_tokens\<close> carries that candidate, a value that no row of the table has: pending with
  \<open>commit=False\<close>, and with \<open>commit=True\<close> written and committed when the
  ID and the token fit their columns and the \<open>TOKEN_CREATE\<close> event is new.
\<close>

theorem create_token_retries:
  assumes "settled s"
  shows
   "((\<forall>k<99. taken s (candidate s k)) \<longrightarrow>
       create_token i c s = (Inl RuntimeError, s\<lparr>draws := draws s + 99\<rparr>)) \<and>
    (j < 99 \<and> (\<forall>k<j. taken s (candidate s k)) \<and> \<not> taken s (candidate s j) \<longrightarrow>
       draws (snd (create_token i c s)) = draws s + Suc j \<and>
       fst (create_token i c s) \<noteq> Inl RuntimeError \<and>
       (\<not> c \<longrightarrow> create_token i c s =
          (Inr (), s\<lparr>draws := draws s + Suc j,
                     pending := [NewApiToken i (candidate s j), NewEvent i ''TOKEN_CREATE'']\<rparr>)) \<and>
       (c \<longrightarrow> api_tokens (committed (snd (create_token i c s))) = api_tokens (committed s) \<or>
             api_tokens (committed (snd (create_token i c s))) =
               api_tokens (committed s) @ [ApiToken i (candidate s j) (clock s (ticks s))]) \<and>
       (c \<and> length i \<le> 32 \<and> length (candidate s j) \<le> 64 \<and>
        Event i ''TOKEN_CREATE'' (clock s (Suc (ticks s))) \<notin> set (events (committed s)) \<longrightarrow>
          fst (create_token i c s) = Inr () \<and>
          api_tokens (committed (snd (create_token i c s))) =
            api_tokens (committed s) @ [ApiToken i (candidate s j) (clock s (ticks s))]))"
proof (intro conjI impI)
  assume "\<forall>k<99. taken s (candidate s k)"
  then show "create_token i c s = (Inl RuntimeError, s\<lparr>draws := draws s + 99\<rparr>)"
    using assms by (simp add: create_token_exhausted settled_def)
next
  assume j: "j < 99 \<and> (\<forall>k<j. taken s (candidate s k)) \<and> \<not> taken s (candidate s j)"
  have eq: "create_token i c s =
     and_then (register_event i ''TOKEN_CREATE'' c
        (s\<lparr>draws := draws s + Suc j, pending := [NewApiToken i (candidate s j)]\<rparr>))
       (\<lambda>_ s2. if c then commit s2 else (Inr (), s2))"
    using create_token_found [of s j i c] assms j by (simp add: settled_def)
  have nokey: "(i, candidate s j) \<notin> (\<lambda>r. (api_discord_id r, api_token_value r)) ` set (api_tokens (committed s))"
    using j assms by (auto simp: taken_def settled_def image_iff)
  show "draws (snd (create_token i c s)) = draws s + Suc j"
    using assms nokey unfolding eq
    by (auto simp: register_event_def session_add_def settled_def commit_active warn_def Let_def
        split: prod.splits sum.splits if_splits)
  show "fst (create_token i c s) \<noteq> Inl RuntimeError"
    using assms nokey unfolding eq
    by (auto simp: register_event_def session_add_def settled_def commit_active warn_def Let_def
        split: prod.splits sum.splits if_splits)
  show "create_token i c s =
          (Inr (), s\<lparr>draws := draws s + Suc j,
                     pending := [NewApiToken i (candidate s j), NewEvent i ''TOKEN_CREATE'']\<rparr>)"
    if "\<not> c"
    using that unfolding eq by (simp add: register_event_def session_add_def)
  show "api_tokens (committed (snd (create_token i c s))) = api_tokens (committed s) \<or>
        api_tokens (committed (snd (create_token i c s))) =
          api_tokens (committed s) @ [ApiToken i (candidate s j) (clock s (ticks s))]"
    if c
    using that assms nokey unfolding eq
    by (auto simp: register_event_def session_add_def settled_def commit_active warn_def Let_def
        split: prod.splits sum.splits if_splits)
  assume ok: "c \<and> length i \<le> 32 \<and> length (candidate s j) \<le> 64 \<and>
        Event i ''TOKEN_CREATE'' (clock s (Suc (ticks s))) \<notin> set (events (committed s))"
  show "fst (create_token i c s) = Inr ()"
    using ok assms nokey unfolding eq
    by (auto simp: register_event_def session_add_def settled_def commit_active warn_def Let_def
        split: prod.splits sum.splits if_splits)
  show "api_tokens (committed (snd (create_token i c s))) =
            api_tokens (committed s) @ [ApiToken i (candidate s j) (clock s (ticks s))]"
    using ok assms nokey unfolding eq
    by (auto simp: register_event_def session_add_def settled_def commit_active warn_def Let_def
        split: prod.splits sum.splits if_splits)
qed


theorem create_token_retries_witness:
  "settled (Schema one_token_database (\<lambda>n. n) (\<lambda>n. ''x'')) \<and>
   fst (create_token ''42'' True (Schema one_token_database (\<lambda>n. n) (\<lambda>n. ''x''))) = Inl RuntimeError \<and>
   api_tokens (committed (snd (create_token ''42'' True
     (Schema one_token_database (\<lambda>n. n) (\<lambda>n. ''x''))))) = [ApiToken ''7'' ''x'' 0] \<and>
   settled (Schema one_token_database (\<lambda>n. n) (\<lambda>n. if n = 0 then ''x'' else ''y'')) \<and>
   fst (create_token ''42'' True
     (Schema one_token_database (\<lambda>n. n) (\<lambda>n. if n = 0 then ''x'' else ''y''))) = Inr () \<and>
   draws (snd (create_token ''42'' True
     (Schema one_token_database (\<lambda>n. n) (\<lambda>n. if n = 0 then ''x'' else ''y'')))) = 2 \<and>
   api_tokens (committed (snd (create_token ''42'' True
     (Schema one_token_database (\<lambda>n. n) (\<lambda>n. if n = 0 then ''x'' else ''y''))))) =
     [ApiToken ''7'' ''x'' 0, ApiToken ''42'' ''y'' 0]"
  using create_token_retries
      [of "Schema one_token_database (\<lambda>n. n) (\<lambda>n. ''x'')" "''42''" True 0]
    create_token_retries
      [of "Schema one_token_database (\<lambda>n. n) (\<lambda>n. if n = 0 then ''x'' else ''y'')" "''42''" True 1]
  by (simp add: settled_def Schema_def one_token_database_def empty_database_def
      candidate_def taken_def)

section \<open>What the commit inside \<open>register_event\<close> does to its caller\<close>

text \<open>
  With \<open>commit=True\<close>, \<open>register_event\<close> commits the whole session, the caller's rows
  with the event, and takes every \<open>IntegrityError\<close> of that commit for a duplicate
  event. \<open>Schema.commit\<close> has rolled the transaction back by then.
\<close>


text \<open>
  Claim C7, evaluated. The clock stands still at 5. \<open>create_user("42")\<close> records a
  \<open>TOKEN_REVOKE\<close> event at 5, and \<open>revoke_token("42")\<close> then tries to record the same
  event again. The duplicate is swallowed with the warning and \<open>revoke_token\<close> returns
  normally, but the rollback of the failed commit has undone the \<open>DELETE\<close> of the
  token: the token is still in the table and still authenticates the account.
\<close>

theorem revoke_token_lost_with_audit_duplicate:
  "(let created = create_user ''42'' True True (Schema empty_database (\<lambda>n. 5) letters);
        revoked = revoke_token ''42'' True (snd created)
    in fst created = Inr () \<and>
       events (committed (snd created)) =
         [Event ''42'' ''USER_CREATE'' 5, Event ''42'' ''TOKEN_REVOKE'' 5,
          Event ''42'' ''TOKEN_CREATE'' 5] \<and>
       fst revoked = Inr () \<and>
       warnings (snd revoked) = [''Attempting to commit events too quickly!''] \<and>
       api_tokens (committed (snd revoked)) = [ApiToken ''42'' ''a'' 5] \<and>
       fst (get_api_user ''a'' (snd revoked)) = Inr ''42'')"
  by code_simp

section \<open>Authentication tokens\<close>


section \<open>Replacing a token\<close>

text \<open>
  The first query of the loop flushes what is pending: the loop then runs on the flushed
  session, or ends with the error of the refused row.
\<close>

lemma find_token_pending:
  assumes "active s" "0 < n" "pending s \<noteq> []"
    and "flush_rows (pending s) (clock s) (ticks s) (working s) = (Inr db, m)"
  shows "find_token n s = find_token n (s\<lparr>working := db, pending := [], ticks := m\<rparr>)"
proof -
  obtain n' where n: "n = Suc n'" using assms(2) by (cases n) auto
  have swap: "s\<lparr>draws := Suc (draws s), working := db, pending := [], ticks := m\<rparr> =
      s\<lparr>working := db, pending := [], ticks := m, draws := Suc (draws s)\<rparr>"
    by simp
  show ?thesis using assms unfolding n by (simp add: select_def flush_def Let_def swap)
qed


text \<open>
  \<open>regenerate_token\<close> with \<open>commit=False\<close> on a settled session, when the
  \<open>TOKEN_REVOKE\<close> event is new and candidate \<open>j\<close> is the first that no other account
  holds: the rows of the account are deleted and the event is written in the open
  transaction, the new token and its event are pending.
\<close>

lemma regenerate_token_pending:
  assumes "settled s" "length i \<le> 32"
    and "Event i ''TOKEN_REVOKE'' (clock s (ticks s)) \<notin> set (events (committed s))"
    and "j < 99" "\<forall>k<j. taken_by_others s i (candidate s k)"
    and "\<not> taken_by_others s i (candidate s j)"
  shows "regenerate_token i False s =
     (Inr (), s\<lparr>working := (committed s)\<lparr>
                   events := events (committed s) @ [Event i ''TOKEN_REVOKE'' (clock s (ticks s))],
                   api_tokens := filter (\<lambda>r. api_discord_id r \<noteq> i) (api_tokens (committed s))\<rparr>,
                pending := [NewApiToken i (candidate s j), NewEvent i ''TOKEN_CREATE''],
                ticks := Suc (ticks s), draws := draws s + Suc j\<rparr>)"
proof -
  let ?s1 = "s\<lparr>working := (working s)\<lparr>api_tokens :=
      filter (\<lambda>r. api_discord_id r \<noteq> i) (api_tokens (working s))\<rparr>,
      pending := [NewEvent i ''TOKEN_REVOKE'']\<rparr>"
  let ?db = "(committed s)\<lparr>
                   events := events (committed s) @ [Event i ''TOKEN_REVOKE'' (clock s (ticks s))],
                   api_tokens := filter (\<lambda>r. api_discord_id r \<noteq> i) (api_tokens (committed s))\<rparr>"
  let ?s2 = "?s1\<lparr>working := ?db, pending := [], ticks := Suc (ticks s)\<rparr>"
  have revoke: "revoke_token i False s = (Inr (), ?s1)"
    using assms(1) by (simp add: revoke_token_def register_event_def session_add_def settled_def)
  have rows: "flush_rows (pending ?s1) (clock ?s1) (ticks ?s1) (working ?s1) = (Inr ?db, Suc (ticks s))"
    using assms(1,2,3) by (simp add: settled_def)
  have "find_token 99 ?s1 = find_token 99 ?s2"
    using find_token_pending [of ?s1 99, OF _ _ _ rows] assms(1) by (simp add: settled_def)
  moreover have "find_token 99 ?s2 =
      (Inr (Some (token_urlsafe ?s2 (draws ?s2 + j))), ?s2\<lparr>draws := draws ?s2 + Suc j\<rparr>)"
    using assms(1,4,5,6)
    by (intro find_token_found) (simp_all add: settled_def taken_by_others_def candidate_def)
  ultimately have "find_token 99 ?s1 =
      (Inr (Some (candidate s j)), ?s2\<lparr>draws := draws s + Suc j\<rparr>)"
    by (simp add: candidate_def)
  then show ?thesis
    using assms(1)
    by (simp add: regenerate_token_def revoke create_token_def register_event_def
        session_add_def settled_def)
qed


lemma regenerate_token_commit:
  "regenerate_token i True s = and_then (regenerate_token i False s) (\<lambda>_ s'. commit s')"
  by (simp add: regenerate_token_def and_then_def split: prod.splits sum.splits)

text \<open>
  Claim C2, as amended. On a settled session, let \<open>t1\<close> be the token that
  \<open>get_api_token\<close> returns for an account ID of at most 32 characters, and let no
  other account hold \<open>t1\<close>. Provided the \<open>TOKEN_REVOKE\<close> and \<open>TOKEN_CREATE\<close> events
  of the account are new, and the first candidate that no other account holds comes within
  the 99 draws, differs from \<open>t1\<close> and has at most 64 characters,
  \<open>regenerate_token(id, commit=True)\<close> returns normally, \<open>get_api_user(t1)\<close> then
  raises \<open>KeyError\<close>, \<open>get_api_token(id)\<close> returns that candidate, a token other than
  \<open>t1\<close>, and \<open>get_api_user\<close> of it returns the account.
\<close>

theorem regenerate_token_replaces:
  assumes "settled s" "length i \<le> 32"
    and "fst (get_api_token i s) = Inr t1"
    and "\<forall>r\<in>set (api_tokens (committed s)). api_token_value r = t1 \<longrightarrow> api_discord_id r = i"
    and "fresh_stamp s i ''TOKEN_REVOKE''" "fresh_stamp s i ''TOKEN_CREATE''"
    and "j < 99" "\<forall>k<j. taken_by_others s i (candidate s k)"
    and "\<not> taken_by_others s i (candidate s j)"
    and "candidate s j \<noteq> t1" "length (candidate s j) \<le> 64"
  shows "fst (regenerate_token i True s) = Inr () \<and>
     fst (get_api_user t1 (snd (regenerate_token i True s))) = Inl KeyError \<and>
     fst (get_api_token i (snd (regenerate_token i True s))) = Inr (candidate s j) \<and>
     candidate s j \<noteq> t1 \<and>
     fst (get_api_user (candidate s j) (snd (regenerate_token i True s))) = Inr i"
proof -
  let ?k = "candidate s j"
  let ?rest = "filter (\<lambda>r. api_discord_id r \<noteq> i) (api_tokens (committed s))"
  let ?db = "(committed s)\<lparr>
      events := events (committed s) @ [Event i ''TOKEN_REVOKE'' (clock s (ticks s)),
                                         Event i ''TOKEN_CREATE'' (clock s (Suc (Suc (ticks s))))],
      api_tokens := ?rest @ [ApiToken i ?k (clock s (Suc (ticks s)))]\<rparr>"
  have stamp1: "Event i ''TOKEN_REVOKE'' (clock s (ticks s)) \<notin> set (events (committed s))"
    using assms(1,5) by (simp add: fresh_stamp_def settled_def)
  have stamp2: "Event i ''TOKEN_CREATE'' (clock s (Suc (Suc (ticks s)))) \<notin> set (events (committed s))"
    using assms(1,6) by (simp add: fresh_stamp_def settled_def)
  have nokey: "(i, ?k) \<notin> (\<lambda>r. (api_discord_id r, api_token_value r)) ` set ?rest"
    by auto
  have pend: "regenerate_token i False s =
     (Inr (), s\<lparr>working := (committed s)\<lparr>
                   events := events (committed s) @ [Event i ''TOKEN_REVOKE'' (clock s (ticks s))],
                   api_tokens := ?rest\<rparr>,
                pending := [NewApiToken i ?k, NewEvent i ''TOKEN_CREATE''],
                ticks := Suc (ticks s), draws := draws s + Suc j\<rparr>)"
    using regenerate_token_pending [OF assms(1,2) stamp1 assms(7,8,9)] .
  have result: "regenerate_token i True s =
     (Inr (), s\<lparr>committed := ?db, working := ?db, pending := [],
                ticks := Suc (Suc (Suc (ticks s))), draws := draws s + Suc j\<rparr>)"
    using assms(1,2,11) stamp2 nokey
    by (simp add: regenerate_token_commit pend commit_active settled_def)
  have others: "filter (\<lambda>r. api_token_value r = t1) ?rest = []"
    using assms(4) by (auto simp: filter_empty_conv)
  have free: "filter (\<lambda>r. api_token_value r = ?k) ?rest = []"
    using assms(9) assms(1) by (force simp: filter_empty_conv taken_by_others_def settled_def image_iff)
  have mine: "filter (\<lambda>r. api_discord_id r = i) ?rest = []"
    by (auto simp: filter_empty_conv)
  show ?thesis
    using assms(1,10) others free mine
    by (simp add: result get_api_user_def get_api_token_def settled_def)
qed

theorem regenerate_token_replaces_witness:
  "fst (regenerate_token ''42'' True (Schema sample_database (\<lambda>n. n + 10) letters)) = Inr () \<and>
   fst (get_api_token ''42'' (Schema sample_database (\<lambda>n. n + 10) letters)) = Inr ''old'' \<and>
   fst (get_api_user ''old''
     (snd (regenerate_token ''42'' True (Schema sample_database (\<lambda>n. n + 10) letters)))) =
     Inl KeyError \<and>
   fst (get_api_token ''42''
     (snd (regenerate_token ''42'' True (Schema sample_database (\<lambda>n. n + 10) letters)))) =
     Inr ''aa'' \<and>
   fst (get_api_user ''aa''
     (snd (regenerate_token ''42'' True (Schema sample_database (\<lambda>n. n + 10) letters)))) =
     Inr ''42''"
  using regenerate_token_replaces
    [of "Schema sample_database (\<lambda>n. n + 10) letters" "''42''" "''old''" 1]
  by (simp add: settled_def Schema_def sample_database_def fresh_stamp_def candidate_def
      taken_by_others_def get_api_token_def letters_def)

text \<open>
  Claim C2 as stated fails when the audit event exists already. The clock stands at 5:
  \<open>create_user("42")\<close> gives the token \<open>a\<close> and records \<open>TOKEN_REVOKE\<close> at 5;
  \<open>regenerate_token("42")\<close> then raises \<open>IntegrityError\<close> from the flush of its own
  \<open>TOKEN_REVOKE\<close> event, and \<open>a\<close> remains the token of the account. It also fails,
  with a clock that advances, when the generator returns \<open>a\<close> again: the rows of the
  account are deleted before the candidate is looked up, so \<open>a\<close> is accepted and stays
  valid.
\<close>

theorem regenerate_token_same_timestamp:
  "(let created = create_user ''42'' True True (Schema empty_database (\<lambda>n. 5) letters);
        regenerated = regenerate_token ''42'' True (snd created)
    in fst created = Inr () \<and>
       fst (get_api_token ''42'' (snd created)) = Inr ''a'' \<and>
       fst regenerated = Inl IntegrityError \<and>
       api_tokens (committed (snd regenerated)) = [ApiToken ''42'' ''a'' 5] \<and>
       fst (get_api_token ''42'' (snd regenerated)) \<noteq> Inr ''aa'' \<and>
       fst (get_api_user ''a'' (snd regenerated)) \<noteq> Inl KeyError) \<and>
   (let created = create_user ''42'' True True (Schema empty_database (\<lambda>n. n) (\<lambda>n. ''a''));
        regenerated = regenerate_token ''42'' True (snd created)
    in fst created = Inr () \<and>
       fst (get_api_token ''42'' (snd created)) = Inr ''a'' \<and>
       fst regenerated = Inr () \<and>
       fst (get_api_token ''42'' (snd regenerated)) = Inr ''a'' \<and>
       fst (get_api_user ''a'' (snd regenerated)) = Inr ''42'')"
  by code_simp

section \<open>Creating a user\<close>










section \<open>Setting the Discord token twice\<close>

text \<open>
  \<open>set_auth_discord\<close> with \<open>commit=True\<close> leaves a settled session settled, whether
  its commit succeeds or not; it succeeds when the ID and the token fit their columns and
  the \<open>AUTHENTICATE_DISCORD\<close> event is new.
\<close>

lemma set_auth_discord_settled:
  assumes "settled s"
  shows "settled (snd (set_auth_discord i v True s)) \<and>
         clock (snd (set_auth_discord i v True s)) = clock s"
  using assms
  by (auto simp: set_auth_discord_def register_event_def session_add_def commit_active
      settled_def split: prod.splits sum.splits)

lemma set_auth_discord_commits:
  assumes "settled s" "length i \<le> 32" "length v \<le> 1024"
    and "Event i ''AUTHENTICATE_DISCORD'' (clock s (Suc (ticks s))) \<notin> set (events (committed s))"
  shows "set_auth_discord i v True s =
     (Inr (), s\<lparr>committed := (committed s)\<lparr>
                   events := events (committed s) @
                     [Event i ''AUTHENTICATE_DISCORD'' (clock s (Suc (ticks s)))],
                   auth_tokens := filter (\<lambda>r. auth_discord_id r \<noteq> i) (auth_tokens (committed s)) @
                     [AuthToken i ''DISCORD'' v (clock s (ticks s))]\<rparr>,
                working := (committed s)\<lparr>
                   events := events (committed s) @
                     [Event i ''AUTHENTICATE_DISCORD'' (clock s (Suc (ticks s)))],
                   auth_tokens := filter (\<lambda>r. auth_discord_id r \<noteq> i) (auth_tokens (committed s)) @
                     [AuthToken i ''DISCORD'' v (clock s (ticks s))]\<rparr>,
                pending := [], ticks := Suc (Suc (ticks s))\<rparr>)"
proof -
  have nokey: "(i, ''DISCORD'', v) \<notin>
      (\<lambda>r. (auth_discord_id r, auth_provider r, auth_token_value r)) `
        set (filter (\<lambda>r. auth_discord_id r \<noteq> i) (auth_tokens (committed s)))"
    by auto
  show ?thesis
    using assms nokey
    by (simp add: set_auth_discord_def register_event_def session_add_def commit_active
        settled_def)
qed

text \<open>
  Claim C9, as amended. On a settled session, for an account ID of at most 32 characters
  and tokens \<open>v1\<close> and then \<open>v2\<close>, \<open>v2\<close> of at most 1024 characters: provided that
  after \<open>set_auth_discord(id, v1)\<close> the \<open>AUTHENTICATE_DISCORD\<close> event of the account is
  new, \<open>set_auth_discord(id, v2)\<close> returns normally and \<open>auth_tokens\<close> then holds
  exactly one row of the account with the provider \<open>DISCORD\<close>, with the token \<open>v2\<close>.
\<close>

theorem set_auth_discord_twice:
  assumes "settled s" "length i \<le> 32" "length v2 \<le> 1024"
    and "fresh_stamp (snd (set_auth_discord i v1 True s)) i ''AUTHENTICATE_DISCORD''"
  shows "fst (set_auth_discord i v2 True (snd (set_auth_discord i v1 True s))) = Inr () \<and>
     filter (\<lambda>r. auth_discord_id r = i \<and> auth_provider r = ''DISCORD'')
       (auth_tokens (committed
         (snd (set_auth_discord i v2 True (snd (set_auth_discord i v1 True s)))))) =
       [AuthToken i ''DISCORD'' v2 (clock s (ticks (snd (set_auth_discord i v1 True s))))]"
proof -
  let ?s1 = "snd (set_auth_discord i v1 True s)"
  have settled1: "settled ?s1" and clock1: "clock ?s1 = clock s"
    using set_auth_discord_settled [OF assms(1), of i v1] by simp_all
  have stamp: "Event i ''AUTHENTICATE_DISCORD'' (clock ?s1 (Suc (ticks ?s1)))
      \<notin> set (events (committed ?s1))"
    using assms(4) settled1 by (simp add: fresh_stamp_def settled_def)
  have mine: "filter (\<lambda>r. auth_discord_id r = i \<and> auth_provider r = ''DISCORD'')
      (filter (\<lambda>r. auth_discord_id r \<noteq> i) (auth_tokens (committed ?s1))) = []"
    by (auto simp: filter_empty_conv)
  show ?thesis
    using mine clock1
    by (simp add: set_auth_discord_commits [OF settled1 assms(2,3) stamp])
qed

theorem set_auth_discord_twice_witness:
  "fst (set_auth_discord ''42'' ''v2'' True (snd (set_auth_discord ''42'' ''v1'' True
     (Schema sample_database (\<lambda>n. n + 10) letters)))) = Inr () \<and>
   filter (\<lambda>r. auth_discord_id r = ''42'' \<and> auth_provider r = ''DISCORD'')
     (auth_tokens (committed (snd (set_auth_discord ''42'' ''v2'' True
       (snd (set_auth_discord ''42'' ''v1'' True
         (Schema sample_database (\<lambda>n. n + 10) letters))))))) =
     [AuthToken ''42'' ''DISCORD'' ''v2'' 12]"
proof -
  have first: "set_auth_discord ''42'' ''v1'' True (Schema sample_database (\<lambda>n. n + 10) letters) =
      (Inr (), (Schema sample_database (\<lambda>n. n + 10) letters)
         \<lparr>committed := sample_database\<lparr>
            events := events sample_database @ [Event ''42'' ''AUTHENTICATE_DISCORD'' 11],
            auth_tokens := [AuthToken ''42'' ''DISCORD'' ''v1'' 10]\<rparr>,
          working := sample_database\<lparr>
            events := events sample_database @ [Event ''42'' ''AUTHENTICATE_DISCORD'' 11],
            auth_tokens := [AuthToken ''42'' ''DISCORD'' ''v1'' 10]\<rparr>,
          pending := [], ticks := 2\<rparr>)"
    by (simp add: set_auth_discord_def register_event_def session_add_def commit_active
        Schema_def sample_database_def numeral_2_eq_2)
  show ?thesis
    using set_auth_discord_twice
      [of "Schema sample_database (\<lambda>n. n + 10) letters" "''42''" "''v2''" "''v1''"]
    unfolding first
    by (simp add: settled_def fresh_stamp_def Schema_def sample_database_def)
qed

text \<open>
  Claim C9 as stated fails when both calls read the same timestamp. The clock stands at 5:
  the second call raises \<open>IntegrityError\<close> from its \<open>AUTHENTICATE_DISCORD\<close> event, its
  transaction is rolled back, and the row of the account still carries \<open>v1\<close>.
\<close>

theorem set_auth_discord_twice_same_timestamp:
  "(let first = set_auth_discord ''42'' ''v1'' True (Schema empty_database (\<lambda>n. 5) letters);
        second = set_auth_discord ''42'' ''v2'' True (snd first)
    in fst first = Inr () \<and>
       fst second = Inl IntegrityError \<and>
       auth_tokens (committed (snd second)) = [AuthToken ''42'' ''DISCORD'' ''v1'' 5])"
  by code_simp

section \<open>Ensuring a user\<close>















end
